theory Spec2Isabelle
  imports Main
begin

section \<open>Errors\<close>

text \<open>
  A Go \<open>error\<close> value carries a class and a message. \<open>trace.IsNotFound\<close> looks at the
  class only; \<open>nil\<close> is \<open>None\<close>. The classes are those the engine tells apart.
\<close>

datatype error_kind = NotFound | OwnershipConflict | ConnectionProblem | Generic

datatype error = Error error_kind string

fun IsNotFound :: "error option \<Rightarrow> bool" where
  "IsNotFound None = False"
| "IsNotFound (Some (Error k m)) = (k = NotFound)"

text \<open>
  \<open>trace.Wrap\<close> attaches a stack trace to an error and leaves its class and message
  as they are; \<open>trace.Wrap(nil)\<close> is \<open>nil\<close>.
\<close>

definition Wrap :: "error option \<Rightarrow> error option" where
  "Wrap err = err"

section \<open>Remote resources and declarative objects\<close>

text \<open>
  Modelled from the spec: the remote resource, \<open>types.ResourceWithOrigin\<close>, which is
  declared in the API types package. It has a name, an origin tag (the empty string when
  the tag is absent) and a kind-specific spec payload; \<open>SetOrigin\<close> stamps the tag and
  changes nothing else.
\<close>

record 's resource =
  Name :: string
  Origin :: string
  Spec :: 's

definition SetOrigin :: "'s resource \<Rightarrow> string \<Rightarrow> 's resource" where
  "SetOrigin res origin = res\<lparr>Origin := origin\<rparr>"

text \<open>
  Modelled from the spec: the engine's own origin marker, the constant
  \<open>types.OriginKubernetes\<close>, which is declared in the API types package.
\<close>

definition OriginKubernetes :: string where
  "OriginKubernetes = ''kubernetes''"

text \<open>
  \<open>metav1.Condition\<close> without its transition time, which no operation below reads.
\<close>

datatype condition_status = ConditionTrue | ConditionFalse | ConditionUnknown

record condition =
  Type :: string
  Status :: condition_status
  Reason :: string
  Message :: string
  ObservedGeneration :: int

text \<open>
  \<open>meta.SetStatusCondition\<close> of the Kubernetes API machinery: the first condition of the
  same type is overwritten in place (status, reason, message, observed generation); when
  there is none the new condition is appended.
\<close>

fun FindStatusCondition :: "condition list \<Rightarrow> string \<Rightarrow> condition option" where
  "FindStatusCondition [] t = None"
| "FindStatusCondition (c # cs) t = (if Type c = t then Some c else FindStatusCondition cs t)"

fun SetStatusCondition :: "condition list \<Rightarrow> condition \<Rightarrow> condition list" where
  "SetStatusCondition [] newCondition = [newCondition]"
| "SetStatusCondition (c # cs) newCondition =
     (if Type c = Type newCondition
      then c\<lparr>Status := Status newCondition, Reason := Reason newCondition,
             Message := Message newCondition,
             ObservedGeneration := ObservedGeneration newCondition\<rparr> # cs
      else c # SetStatusCondition cs newCondition)"

text \<open>
  Modelled from the spec: a value of the type parameter \<open>K\<close>
  (\<open>TeleportKubernetesResource[T]\<close>), whose concrete types are declared in the API
  resources packages. It is the declarative object with its name, generation, spec and
  status conditions; the lifecycle and finalizer markers, which Upsert and Delete never
  read, are left out. A \<open>kclient.Object\<close> handed to the reconciler is either such a
  value or an object of some other type, of which only the type name and the object name
  matter.
\<close>

record 's kubernetes_resource =
  ObjectName :: string
  Generation :: int
  ObjectSpec :: 's
  Conditions :: "condition list"

datatype 's object = Resource "'s kubernetes_resource" | OtherObject string string

fun GetName :: "'s object \<Rightarrow> string" where
  "GetName (Resource k) = ObjectName k"
| "GetName (OtherObject kind nm) = nm"

section \<open>Calls of one pass\<close>

text \<open>
  The calls a pass makes, in program order: the four bound remote functions, the
  ownership check, the status write of the Kubernetes client, and the line written to the
  log when a status write fails.
\<close>

datatype 's event =
    EvGet string
  | EvCheckOwnership "'s resource option"
  | EvCreate "'s resource"
  | EvUpdate "'s resource"
  | EvDelete string
  | EvStatusUpdate "'s kubernetes_resource"
  | EvLogError error

fun is_mutation :: "'s event \<Rightarrow> bool" where
  "is_mutation (EvCreate t) = True"
| "is_mutation (EvUpdate t) = True"
| "is_mutation (EvDelete n) = True"
| "is_mutation e = False"

fun is_ownership_check :: "'s event \<Rightarrow> bool" where
  "is_ownership_check (EvCheckOwnership ex) = True"
| "is_ownership_check e = False"

fun is_status_write :: "'s event \<Rightarrow> bool" where
  "is_status_write (EvStatusUpdate k) = True"
| "is_status_write e = False"

fun is_status_or_log :: "'s event \<Rightarrow> bool" where
  "is_status_or_log (EvStatusUpdate k) = True"
| "is_status_or_log (EvLogError e) = True"
| "is_status_or_log e = False"

section \<open>The generic reconciler\<close>

text \<open>
  Every collaborator is a function of the outside world \<open>'w\<close> (the Teleport backend and
  the Kubernetes API server) that returns the world after the call and the call's Go
  results. The context argument carries no data the engine reads and is left out.
\<close>

type_synonym ('w, 's) GetTeleportResource =
  "'w \<Rightarrow> string \<Rightarrow> 'w \<times> 's resource option \<times> error option"
type_synonym ('w, 's) CreateTeleportResource = "'w \<Rightarrow> 's resource \<Rightarrow> 'w \<times> error option"
type_synonym ('w, 's) UpdateTeleportResource = "'w \<Rightarrow> 's resource \<Rightarrow> 'w \<times> error option"
type_synonym 'w DeleteTeleportResource = "'w \<Rightarrow> string \<Rightarrow> 'w \<times> error option"
type_synonym ('w, 's) StatusWriter = "'w \<Rightarrow> 's kubernetes_resource \<Rightarrow> 'w \<times> error option"

text \<open>
  \<open>TeleportResourceReconciler[T, K]\<close>. \<open>StatusUpdate\<close> is \<open>Client.Status().Update\<close> of the
  embedded base reconciler; \<open>ToTeleport\<close> is the method that the type parameter \<open>K\<close>
  brings with it.
\<close>

record ('w, 's) reconciler =
  StatusUpdate :: "('w, 's) StatusWriter"
  ToTeleport :: "'s kubernetes_resource \<Rightarrow> 's resource"
  GetTeleportResource :: "('w, 's) GetTeleportResource"
  UpdateTeleportResource :: "('w, 's) UpdateTeleportResource"
  CreateTeleportResource :: "('w, 's) CreateTeleportResource"
  DeleteTeleportResource :: "'w DeleteTeleportResource"

definition NewTeleportResourceReconciler ::
  "('w, 's) StatusWriter \<Rightarrow> ('s kubernetes_resource \<Rightarrow> 's resource) \<Rightarrow>
   ('w, 's) GetTeleportResource \<Rightarrow> ('w, 's) UpdateTeleportResource \<Rightarrow>
   ('w, 's) CreateTeleportResource \<Rightarrow> 'w DeleteTeleportResource \<Rightarrow> ('w, 's) reconciler" where
  "NewTeleportResourceReconciler client toTeleport get update create delete =
     \<lparr>StatusUpdate = client, ToTeleport = toTeleport,
      GetTeleportResource = get,
      UpdateTeleportResource = update,
      CreateTeleportResource = create,
      DeleteTeleportResource = delete\<rparr>"

text \<open>What a pass leaves behind: the world, the calls made, the object as it is in memory
  after the pass, and the error returned (\<open>None\<close> for \<open>nil\<close>).\<close>

record ('w, 's) outcome =
  world :: 'w
  calls :: "'s event list"
  object :: "'s object"
  returned :: "error option"

subsection \<open>Helpers of the package\<close>

text \<open>
  Modelled from the spec: the two condition kinds the engine maintains, whose type
  constants are declared in another file of the package.
\<close>

definition ConditionTypeOwnership :: string where
  "ConditionTypeOwnership = ''ownership''"

definition ConditionTypeReconciliation :: string where
  "ConditionTypeReconciliation = ''reconciliation''"

text \<open>
  Modelled from the spec: \<open>checkOwnership\<close>, the ownership arbiter, which is declared
  in another file of the package. No resource: ownership true, reason "new resource". A
  resource whose origin is the engine's marker: ownership true, reason "already owned".
  Any other or absent origin: ownership false, reason "origin conflict", a message naming
  the foreign origin, and (as the call site tests) an error. The check is passed the
  remote resource only, so the condition's observed generation is the zero value.
\<close>

definition checkOwnership :: "'s resource option \<Rightarrow> condition \<times> error option" where
  "checkOwnership existingResource =
     (case existingResource of
        None \<Rightarrow>
          (\<lparr>Type = ConditionTypeOwnership, Status = ConditionTrue,
            Reason = ''new resource'', Message = [], ObservedGeneration = 0\<rparr>, None)
      | Some res \<Rightarrow>
          if Origin res = OriginKubernetes
          then (\<lparr>Type = ConditionTypeOwnership, Status = ConditionTrue,
                 Reason = ''already owned'', Message = [], ObservedGeneration = 0\<rparr>, None)
          else (\<lparr>Type = ConditionTypeOwnership, Status = ConditionFalse,
                 Reason = ''origin conflict'',
                 Message = ''resource is owned by origin: '' @ Origin res,
                 ObservedGeneration = 0\<rparr>,
                Some (Error OwnershipConflict (''unowned resource already exists: '' @ Name res))))"

text \<open>
  Modelled from the spec: \<open>getReconciliationConditionFromError\<close>, which is declared
  in another file of the package. The reconciliation condition is true on success and
  false, with the error's message, on failure. The function is passed the error only, so
  the condition's observed generation is the zero value.
\<close>

fun getReconciliationConditionFromError :: "error option \<Rightarrow> condition" where
  "getReconciliationConditionFromError None =
     \<lparr>Type = ConditionTypeReconciliation, Status = ConditionTrue,
      Reason = ''success'', Message = [], ObservedGeneration = 0\<rparr>"
| "getReconciliationConditionFromError (Some (Error k m)) =
     \<lparr>Type = ConditionTypeReconciliation, Status = ConditionFalse,
      Reason = ''failure'', Message = m, ObservedGeneration = 0\<rparr>"

text \<open>
  Modelled from the spec: \<open>silentUpdateStatus\<close>, which is declared in another file of
  the package. It writes the object's status through the client; a failure of that write is
  logged and swallowed, so nothing is returned to the caller.
\<close>

definition silentUpdateStatus ::
  "('w, 's) StatusWriter \<Rightarrow> 'w \<Rightarrow> 's kubernetes_resource \<Rightarrow> 'w \<times> 's event list" where
  "silentUpdateStatus client w k8sResource =
     (case client w k8sResource of
        (w', None) \<Rightarrow> (w', [EvStatusUpdate k8sResource])
      | (w', Some statusErr) \<Rightarrow> (w', [EvStatusUpdate k8sResource, EvLogError statusErr]))"

subsection \<open>Upsert and Delete\<close>

fun Upsert :: "('w, 's) reconciler \<Rightarrow> 'w \<Rightarrow> 's object \<Rightarrow> ('w, 's) outcome" where
  "Upsert r w (OtherObject kind nm) =
     \<lparr>world = w, calls = [], object = OtherObject kind nm,
      returned = Some (Error Generic (''failed to convert Object into resource object: '' @ kind))\<rparr>"
| "Upsert r w (Resource k8sResource) =
     (let teleportResource = ToTeleport r k8sResource in
      case GetTeleportResource r w (Name teleportResource) of
        (w1, existingResource, err) \<Rightarrow>
      let cs1 = [EvGet (Name teleportResource)] in
      if err \<noteq> None \<and> \<not> IsNotFound err
      then \<lparr>world = w1, calls = cs1, object = Resource k8sResource, returned = Wrap err\<rparr>
      else
      let exists = \<not> IsNotFound err in
      case checkOwnership existingResource of
        (newOwnershipCondition, err) \<Rightarrow>
      let cs2 = cs1 @ [EvCheckOwnership existingResource];
          k1 = k8sResource\<lparr>Conditions :=
                 SetStatusCondition (Conditions k8sResource) newOwnershipCondition\<rparr> in
      if err \<noteq> None
      then (case silentUpdateStatus (StatusUpdate r) w1 k1 of
              (w2, cs) \<Rightarrow>
                \<lparr>world = w2, calls = cs2 @ cs, object = Resource k1, returned = Wrap err\<rparr>)
      else
      if err \<noteq> None
      then \<lparr>world = w1, calls = cs2, object = Resource k1, returned = Wrap err\<rparr>
      else
      let teleportResource = SetOrigin teleportResource OriginKubernetes in
      case (if \<not> exists
            then (case CreateTeleportResource r w1 teleportResource of
                    (w2, e) \<Rightarrow> (w2, e, EvCreate teleportResource))
            else (case UpdateTeleportResource r w1 teleportResource of
                    (w2, e) \<Rightarrow> (w2, e, EvUpdate teleportResource))) of
        (w2, err, ev) \<Rightarrow>
      let cs3 = cs2 @ [ev];
          newReconciliationCondition = getReconciliationConditionFromError err;
          k2 = k1\<lparr>Conditions :=
                 SetStatusCondition (Conditions k1) newReconciliationCondition\<rparr> in
      if err \<noteq> None
      then (case silentUpdateStatus (StatusUpdate r) w2 k2 of
              (w3, cs) \<Rightarrow>
                \<lparr>world = w3, calls = cs3 @ cs, object = Resource k2, returned = Wrap err\<rparr>)
      else
      case StatusUpdate r w2 k2 of
        (w3, statusErr) \<Rightarrow>
          \<lparr>world = w3, calls = cs3 @ [EvStatusUpdate k2], object = Resource k2,
           returned = Wrap statusErr\<rparr>)"

definition Delete :: "('w, 's) reconciler \<Rightarrow> 'w \<Rightarrow> 's object \<Rightarrow> ('w, 's) outcome" where
  "Delete r w obj =
     (case DeleteTeleportResource r w (GetName obj) of
        (w1, err) \<Rightarrow>
          \<lparr>world = w1, calls = [EvDelete (GetName obj)], object = obj, returned = err\<rparr>)"

section \<open>The connector adapters\<close>

text \<open>
  The Teleport API client, of which the adapters use three methods per connector kind.
  The \<open>bool\<close> of the getters is \<open>withSecrets\<close>. A \<open>sidecar.ClientAccessor\<close> yields
  either an error or a client.
\<close>

record ('w, 'o, 'm, 'g) teleport_client =
  GetOIDCConnector :: "'w \<Rightarrow> string \<Rightarrow> bool \<Rightarrow> 'w \<times> 'o resource option \<times> error option"
  UpsertOIDCConnector :: "'w \<Rightarrow> 'o resource \<Rightarrow> 'w \<times> error option"
  DeleteOIDCConnector :: "'w \<Rightarrow> string \<Rightarrow> 'w \<times> error option"
  GetSAMLConnector :: "'w \<Rightarrow> string \<Rightarrow> bool \<Rightarrow> 'w \<times> 'm resource option \<times> error option"
  UpsertSAMLConnector :: "'w \<Rightarrow> 'm resource \<Rightarrow> 'w \<times> error option"
  DeleteSAMLConnector :: "'w \<Rightarrow> string \<Rightarrow> 'w \<times> error option"
  GetGithubConnector :: "'w \<Rightarrow> string \<Rightarrow> bool \<Rightarrow> 'w \<times> 'g resource option \<times> error option"
  UpsertGithubConnector :: "'w \<Rightarrow> 'g resource \<Rightarrow> 'w \<times> error option"
  DeleteGithubConnector :: "'w \<Rightarrow> string \<Rightarrow> 'w \<times> error option"

type_synonym ('w, 'o, 'm, 'g) ClientAccessor =
  "'w \<Rightarrow> 'w \<times> (error + ('w, 'o, 'm, 'g) teleport_client)"

subsection \<open>OIDC\<close>

definition OIDC_GetOIDCConnector ::
  "('w, 'o, 'm, 'g) ClientAccessor \<Rightarrow> ('w, 'o) GetTeleportResource" where
  "OIDC_GetOIDCConnector accessor w name =
     (case accessor w of
        (w1, Inl err) \<Rightarrow> (w1, None, Wrap (Some err))
      | (w1, Inr teleportClient) \<Rightarrow> GetOIDCConnector teleportClient w1 name False)"

definition OIDC_UpsertOIDCConnector ::
  "('w, 'o, 'm, 'g) ClientAccessor \<Rightarrow> 'w \<Rightarrow> 'o resource \<Rightarrow> 'w \<times> error option" where
  "OIDC_UpsertOIDCConnector accessor w oidc =
     (case accessor w of
        (w1, Inl err) \<Rightarrow> (w1, Wrap (Some err))
      | (w1, Inr teleportClient) \<Rightarrow> UpsertOIDCConnector teleportClient w1 oidc)"

definition OIDC_DeleteOIDCConnector ::
  "('w, 'o, 'm, 'g) ClientAccessor \<Rightarrow> 'w DeleteTeleportResource" where
  "OIDC_DeleteOIDCConnector accessor w name =
     (case accessor w of
        (w1, Inl err) \<Rightarrow> (w1, Wrap (Some err))
      | (w1, Inr teleportClient) \<Rightarrow> DeleteOIDCConnector teleportClient w1 name)"

definition NewOIDCConnectorReconciler ::
  "('w, 'o) StatusWriter \<Rightarrow> ('o kubernetes_resource \<Rightarrow> 'o resource) \<Rightarrow>
   ('w, 'o, 'm, 'g) ClientAccessor \<Rightarrow> ('w, 'o) reconciler" where
  "NewOIDCConnectorReconciler client toTeleport accessor =
     NewTeleportResourceReconciler client toTeleport
       (OIDC_GetOIDCConnector accessor)
       (OIDC_UpsertOIDCConnector accessor)
       (OIDC_UpsertOIDCConnector accessor)
       (OIDC_DeleteOIDCConnector accessor)"

subsection \<open>SAML\<close>

definition SAML_GetSAMLConnector ::
  "('w, 'o, 'm, 'g) ClientAccessor \<Rightarrow> ('w, 'm) GetTeleportResource" where
  "SAML_GetSAMLConnector accessor w name =
     (case accessor w of
        (w1, Inl err) \<Rightarrow> (w1, None, Wrap (Some err))
      | (w1, Inr teleportClient) \<Rightarrow> GetSAMLConnector teleportClient w1 name False)"

definition SAML_UpsertSAMLConnector ::
  "('w, 'o, 'm, 'g) ClientAccessor \<Rightarrow> 'w \<Rightarrow> 'm resource \<Rightarrow> 'w \<times> error option" where
  "SAML_UpsertSAMLConnector accessor w oidc =
     (case accessor w of
        (w1, Inl err) \<Rightarrow> (w1, Wrap (Some err))
      | (w1, Inr teleportClient) \<Rightarrow> UpsertSAMLConnector teleportClient w1 oidc)"

definition SAML_DeleteSAMLConnector ::
  "('w, 'o, 'm, 'g) ClientAccessor \<Rightarrow> 'w DeleteTeleportResource" where
  "SAML_DeleteSAMLConnector accessor w name =
     (case accessor w of
        (w1, Inl err) \<Rightarrow> (w1, Wrap (Some err))
      | (w1, Inr teleportClient) \<Rightarrow> DeleteSAMLConnector teleportClient w1 name)"

definition NewSAMLConnectorReconciler ::
  "('w, 'm) StatusWriter \<Rightarrow> ('m kubernetes_resource \<Rightarrow> 'm resource) \<Rightarrow>
   ('w, 'o, 'm, 'g) ClientAccessor \<Rightarrow> ('w, 'm) reconciler" where
  "NewSAMLConnectorReconciler client toTeleport accessor =
     NewTeleportResourceReconciler client toTeleport
       (SAML_GetSAMLConnector accessor)
       (SAML_UpsertSAMLConnector accessor)
       (SAML_UpsertSAMLConnector accessor)
       (SAML_DeleteSAMLConnector accessor)"

subsection \<open>GitHub\<close>

definition Github_GetGithubConnector ::
  "('w, 'o, 'm, 'g) ClientAccessor \<Rightarrow> ('w, 'g) GetTeleportResource" where
  "Github_GetGithubConnector accessor w name =
     (case accessor w of
        (w1, Inl err) \<Rightarrow> (w1, None, Wrap (Some err))
      | (w1, Inr teleportClient) \<Rightarrow> GetGithubConnector teleportClient w1 name False)"

definition Github_UpsertGithubConnector ::
  "('w, 'o, 'm, 'g) ClientAccessor \<Rightarrow> 'w \<Rightarrow> 'g resource \<Rightarrow> 'w \<times> error option" where
  "Github_UpsertGithubConnector accessor w oidc =
     (case accessor w of
        (w1, Inl err) \<Rightarrow> (w1, Wrap (Some err))
      | (w1, Inr teleportClient) \<Rightarrow> UpsertGithubConnector teleportClient w1 oidc)"

definition Github_DeleteGithubConnector ::
  "('w, 'o, 'm, 'g) ClientAccessor \<Rightarrow> 'w DeleteTeleportResource" where
  "Github_DeleteGithubConnector accessor w name =
     (case accessor w of
        (w1, Inl err) \<Rightarrow> (w1, Wrap (Some err))
      | (w1, Inr teleportClient) \<Rightarrow> DeleteGithubConnector teleportClient w1 name)"

definition NewGithubConnectorReconciler ::
  "('w, 'g) StatusWriter \<Rightarrow> ('g kubernetes_resource \<Rightarrow> 'g resource) \<Rightarrow>
   ('w, 'o, 'm, 'g) ClientAccessor \<Rightarrow> ('w, 'g) reconciler" where
  "NewGithubConnectorReconciler client toTeleport accessor =
     NewTeleportResourceReconciler client toTeleport
       (Github_GetGithubConnector accessor)
       (Github_UpsertGithubConnector accessor)
       (Github_UpsertGithubConnector accessor)
       (Github_DeleteGithubConnector accessor)"

section \<open>A small backend for concrete runs\<close>

text \<open>
  A backend and an API server small enough to evaluate: connectors are stored by name,
  the last status written is kept, and the backend, its writes alone, or the status write
  can be switched to failing. The bound
  functions are wired as the adapters wire them, create and update both to the upsert.
\<close>

record fake_world =
  connectors :: "(string \<times> string resource) list"
  stored_status :: "condition list option"
  backend_down :: bool
  read_only :: bool
  status_down :: bool

definition fake_get :: "(fake_world, string) GetTeleportResource" where
  "fake_get w name =
     (if backend_down w then (w, None, Some (Error ConnectionProblem ''backend unavailable''))
      else case map_of (connectors w) name of
             None \<Rightarrow> (w, None, Some (Error NotFound ''connector not found''))
           | Some res \<Rightarrow> (w, Some res, None))"

definition fake_upsert :: "fake_world \<Rightarrow> string resource \<Rightarrow> fake_world \<times> error option" where
  "fake_upsert w res =
     (if backend_down w then (w, Some (Error ConnectionProblem ''backend unavailable''))
      else if read_only w then (w, Some (Error Generic ''backend is read-only''))
      else (w\<lparr>connectors := (Name res, res) # connectors w\<rparr>, None))"

definition fake_delete :: "fake_world DeleteTeleportResource" where
  "fake_delete w name =
     (if backend_down w then (w, Some (Error ConnectionProblem ''backend unavailable''))
      else if read_only w then (w, Some (Error Generic ''backend is read-only''))
      else case map_of (connectors w) name of
             None \<Rightarrow> (w, Some (Error NotFound ''connector not found''))
           | Some res \<Rightarrow> (w\<lparr>connectors := filter (\<lambda>p. fst p \<noteq> name) (connectors w)\<rparr>, None))"

definition fake_status :: "(fake_world, string) StatusWriter" where
  "fake_status w k =
     (if status_down w then (w, Some (Error ConnectionProblem ''status write refused''))
      else (w\<lparr>stored_status := Some (Conditions k)\<rparr>, None))"

definition fake_toTeleport :: "string kubernetes_resource \<Rightarrow> string resource" where
  "fake_toTeleport k = \<lparr>Name = ObjectName k, Origin = [], Spec = ObjectSpec k\<rparr>"

definition fake_reconciler :: "(fake_world, string) reconciler" where
  "fake_reconciler =
     NewTeleportResourceReconciler fake_status fake_toTeleport
       fake_get fake_upsert fake_upsert fake_delete"

definition empty_world :: fake_world where
  "empty_world =
     \<lparr>connectors = [], stored_status = None, backend_down = False, read_only = False,
      status_down = False\<rparr>"

definition conn_a :: "string kubernetes_resource" where
  "conn_a =
     \<lparr>ObjectName = ''conn-a'', Generation = 1, ObjectSpec = ''https://issuer'',
      Conditions = []\<rparr>"

definition foreign_res :: "string resource" where
  "foreign_res = \<lparr>Name = ''conn-a'', Origin = ''config-file'', Spec = ''https://old''\<rparr>"

definition foreign_world :: fake_world where
  "foreign_world = empty_world\<lparr>connectors := [(''conn-a'', foreign_res)]\<rparr>"

definition owned_res :: "string resource" where
  "owned_res = \<lparr>Name = ''conn-a'', Origin = ''kubernetes'', Spec = ''https://old''\<rparr>"

definition owned_world :: fake_world where
  "owned_world = empty_world\<lparr>connectors := [(''conn-a'', owned_res)]\<rparr>"

text \<open>The object \<open>conn-a\<close> as an earlier, successful pass left it.\<close>

definition conn_a_synced :: "string kubernetes_resource" where
  "conn_a_synced =
     conn_a\<lparr>Conditions :=
       [\<lparr>Type = ''ownership'', Status = ConditionTrue, Reason = ''new resource'',
         Message = [], ObservedGeneration = 0\<rparr>,
        \<lparr>Type = ''reconciliation'', Status = ConditionTrue, Reason = ''success'',
         Message = [], ObservedGeneration = 0\<rparr>]\<rparr>"

section \<open>Facts about the helpers\<close>

lemmas fake_defs =
  fake_reconciler_def NewTeleportResourceReconciler_def fake_get_def fake_upsert_def
  fake_delete_def fake_status_def fake_toTeleport_def empty_world_def conn_a_def
  conn_a_synced_def foreign_world_def foreign_res_def owned_world_def owned_res_def
  checkOwnership_def silentUpdateStatus_def SetOrigin_def OriginKubernetes_def Wrap_def
  ConditionTypeOwnership_def ConditionTypeReconciliation_def

lemma Find_Set_other:
  "Type c \<noteq> t \<Longrightarrow> FindStatusCondition (SetStatusCondition cs c) t = FindStatusCondition cs t"
  by (induction cs) auto

lemma Find_Set_same: "FindStatusCondition (SetStatusCondition cs c) (Type c) = Some c"
  by (induction cs) auto

lemma filter_Set_other:
  "filter (\<lambda>x. Type x \<noteq> Type c) (SetStatusCondition cs c) = filter (\<lambda>x. Type x \<noteq> Type c) cs"
  by (induction cs) auto

lemma checkOwnership_Type: "Type (fst (checkOwnership ex)) = ConditionTypeOwnership"
  by (simp add: checkOwnership_def split: option.splits)

lemma reconciliation_Type:
  "Type (getReconciliationConditionFromError e) = ConditionTypeReconciliation"
  by (cases e rule: getReconciliationConditionFromError.cases) auto

lemma types_differ: "ConditionTypeOwnership \<noteq> ConditionTypeReconciliation"
  by (simp add: ConditionTypeOwnership_def ConditionTypeReconciliation_def)

lemma checkOwnership_foreign:
  "Origin ex \<noteq> OriginKubernetes \<Longrightarrow>
   \<exists>c e. checkOwnership (Some ex) = (c, Some e) \<and> Status c = ConditionFalse \<and>
         Type c = ConditionTypeOwnership"
  by (simp add: checkOwnership_def)

lemma silent_world: "fst (silentUpdateStatus client w k) = fst (client w k)"
  by (simp add: silentUpdateStatus_def split: prod.splits option.splits)

lemma silent_calls:
  "snd (silentUpdateStatus client w k) =
   EvStatusUpdate k # (case snd (client w k) of None \<Rightarrow> [] | Some e \<Rightarrow> [EvLogError e])"
  by (simp add: silentUpdateStatus_def split: prod.splits option.splits)

section \<open>The ways through Upsert\<close>

text \<open>The get call failed with an error other than NotFound.\<close>

lemma Upsert_get_failed:
  assumes "GetTeleportResource r w (Name (ToTeleport r k)) = (w1, ex, gerr)"
    and "gerr \<noteq> None" and "\<not> IsNotFound gerr"
  shows "Upsert r w (Resource k) =
    \<lparr>world = w1, calls = [EvGet (Name (ToTeleport r k))], object = Resource k,
     returned = gerr\<rparr>"
  using assms by (simp add: Let_def Wrap_def)

text \<open>The ownership check returned an error.\<close>

lemma Upsert_denied:
  assumes "GetTeleportResource r w (Name (ToTeleport r k)) = (w1, ex, gerr)"
    and "gerr = None \<or> IsNotFound gerr"
    and "checkOwnership ex = (c, Some e)"
  shows "Upsert r w (Resource k) =
    \<lparr>world = fst (StatusUpdate r w1 (k\<lparr>Conditions := SetStatusCondition (Conditions k) c\<rparr>)),
     calls = [EvGet (Name (ToTeleport r k)), EvCheckOwnership ex] @
             snd (silentUpdateStatus (StatusUpdate r) w1
                    (k\<lparr>Conditions := SetStatusCondition (Conditions k) c\<rparr>)),
     object = Resource (k\<lparr>Conditions := SetStatusCondition (Conditions k) c\<rparr>),
     returned = Some e\<rparr>"
  using assms
  by (cases "StatusUpdate r w1 (k\<lparr>Conditions := SetStatusCondition (Conditions k) c\<rparr>)")
    (auto simp add: Let_def Wrap_def silentUpdateStatus_def split: option.splits)

text \<open>The ownership check passed and create or update was called.\<close>

lemma Upsert_mutated:
  assumes "GetTeleportResource r w (Name (ToTeleport r k)) = (w1, ex, gerr)"
    and "gerr = None \<or> IsNotFound gerr"
    and "checkOwnership ex = (c, None)"
    and "(if IsNotFound gerr
          then CreateTeleportResource r w1 (SetOrigin (ToTeleport r k) OriginKubernetes)
          else UpdateTeleportResource r w1 (SetOrigin (ToTeleport r k) OriginKubernetes)) =
         (w2, merr)"
    and "k2 = k\<lparr>Conditions := SetStatusCondition (SetStatusCondition (Conditions k) c)
                    (getReconciliationConditionFromError merr)\<rparr>"
  shows "Upsert r w (Resource k) =
    \<lparr>world = fst (StatusUpdate r w2 k2),
     calls = [EvGet (Name (ToTeleport r k)), EvCheckOwnership ex,
              if IsNotFound gerr then EvCreate (SetOrigin (ToTeleport r k) OriginKubernetes)
              else EvUpdate (SetOrigin (ToTeleport r k) OriginKubernetes)] @
             (if merr = None then [EvStatusUpdate k2]
              else snd (silentUpdateStatus (StatusUpdate r) w2 k2)),
     object = Resource k2,
     returned = (if merr = None then snd (StatusUpdate r w2 k2) else merr)\<rparr>"
proof -
  obtain w3 serr where su: "StatusUpdate r w2 k2 = (w3, serr)"
    by (cases "StatusUpdate r w2 k2")
  show ?thesis
  proof (cases "IsNotFound gerr")
    case True
    with assms su show ?thesis
      by (cases merr; cases serr) (simp_all add: Let_def Wrap_def silentUpdateStatus_def)
  next
    case False
    with assms su show ?thesis
      by (cases merr; cases serr) (simp_all add: Let_def Wrap_def silentUpdateStatus_def)
  qed
qed

declare Upsert.simps(2) [simp del]

text \<open>The calls of a pass have one of four shapes.\<close>

lemma Upsert_calls_cases:
  "calls (Upsert r w obj) = [] \<or>
   (\<exists>n. calls (Upsert r w obj) = [EvGet n]) \<or>
   (\<exists>n ex k' tl. calls (Upsert r w obj) =
        [EvGet n, EvCheckOwnership ex, EvStatusUpdate k'] @ tl \<and>
       (tl = [] \<or> (\<exists>e. tl = [EvLogError e]))) \<or>
   (\<exists>n ex t k' tl. calls (Upsert r w obj) =
        [EvGet n, EvCheckOwnership ex, t, EvStatusUpdate k'] @ tl \<and>
       ((\<exists>x. t = EvCreate x) \<or> (\<exists>x. t = EvUpdate x)) \<and>
       (tl = [] \<or> (\<exists>e. tl = [EvLogError e])))"
proof (cases obj)
  case (OtherObject kind nm)
  then show ?thesis by simp
next
  case (Resource k)
  obtain w1 ex gerr where get: "GetTeleportResource r w (Name (ToTeleport r k)) = (w1, ex, gerr)"
    by (cases "GetTeleportResource r w (Name (ToTeleport r k))") auto
  show ?thesis
  proof (cases "gerr \<noteq> None \<and> \<not> IsNotFound gerr")
    case True
    with Upsert_get_failed [OF get] Resource show ?thesis by simp
  next
    case False
    then have ok: "gerr = None \<or> IsNotFound gerr" by blast
    obtain c oerr where co: "checkOwnership ex = (c, oerr)" by (cases "checkOwnership ex")
    show ?thesis
    proof (cases oerr)
      case (Some e)
      with Upsert_denied [OF get ok] co Resource show ?thesis
        by (simp add: silent_calls split: option.splits)
    next
      case None
      obtain w2 merr where mut:
        "(if IsNotFound gerr
          then CreateTeleportResource r w1 (SetOrigin (ToTeleport r k) OriginKubernetes)
          else UpdateTeleportResource r w1 (SetOrigin (ToTeleport r k) OriginKubernetes)) =
         (w2, merr)"
        by (cases "(if IsNotFound gerr
          then CreateTeleportResource r w1 (SetOrigin (ToTeleport r k) OriginKubernetes)
          else UpdateTeleportResource r w1 (SetOrigin (ToTeleport r k) OriginKubernetes))")
      from co None have co': "checkOwnership ex = (c, None)" by simp
      show ?thesis
        unfolding Resource Upsert_mutated [OF get ok co' mut refl]
        by (simp add: silent_calls split: option.splits)
    qed
  qed
qed

section \<open>Properties of the engine\<close>

text \<open>
  C10, the type-mismatch guard. Handed an object that is not of the expected kind,
  Upsert returns an error at once: no backend call and no status write is made, the world
  is as before, and the object, and with it any condition, is untouched.
\<close>

theorem Upsert_type_mismatch:
  "returned (Upsert r w (OtherObject kind nm)) =
     Some (Error Generic (''failed to convert Object into resource object: '' @ kind)) \<and>
   calls (Upsert r w (OtherObject kind nm)) = [] \<and>
   world (Upsert r w (OtherObject kind nm)) = w \<and>
   object (Upsert r w (OtherObject kind nm)) = OtherObject kind nm"
  by simp

text \<open>
  C5, as the claim states it, fails: the bound delete function reports NotFound for a
  connector that has already vanished from the backend, and Delete returns that NotFound
  error, not success.
\<close>

theorem Delete_NotFound_counterexample:
  "IsNotFound (snd (DeleteTeleportResource fake_reconciler empty_world
                      (GetName (Resource conn_a)))) \<and>
   returned (Delete fake_reconciler empty_world (Resource conn_a)) =
     Some (Error NotFound ''connector not found'')"
  by (simp add: Delete_def fake_defs)

text \<open>
  C5, amended. Delete calls the bound delete function once, with the object's name, and
  returns its result unchanged, whatever it is: nil, NotFound or any other error.
\<close>

theorem Delete_passes_result_through:
  "returned (Delete r w obj) = snd (DeleteTeleportResource r w (GetName obj)) \<and>
   world (Delete r w obj) = fst (DeleteTeleportResource r w (GetName obj)) \<and>
   calls (Delete r w obj) = [EvDelete (GetName obj)] \<and>
   object (Delete r w obj) = obj"
  by (simp add: Delete_def split: prod.splits)

text \<open>
  C3 at a failing input: the backend is unavailable, so the get call fails with an error
  that is not NotFound. Upsert returns that error after the get call alone: no create or
  update, but also no condition set on the object and no status write.
\<close>

theorem Upsert_get_error_writes_no_status:
  "Upsert fake_reconciler (empty_world\<lparr>backend_down := True\<rparr>) (Resource conn_a) =
     \<lparr>world = empty_world\<lparr>backend_down := True\<rparr>,
      calls = [EvGet ''conn-a''],
      object = Resource conn_a,
      returned = Some (Error ConnectionProblem ''backend unavailable'')\<rparr>"
  by (simp add: Upsert.simps fake_defs Let_def)

text \<open>
  C1, the ownership gate. When the get call yields an existing resource whose origin is
  not the engine's marker, the pass makes no create, update or delete call; the ownership
  condition computed for it is false and is the ownership condition of the object after
  the pass; the status write of that object is the third call, right after the get and
  the check; and the error returned is the ownership error.
\<close>

theorem Upsert_ownership_gate:
  assumes "GetTeleportResource r w (Name (ToTeleport r k)) = (w1, Some ex, gerr)"
    and "gerr = None \<or> IsNotFound gerr"
    and "Origin ex \<noteq> OriginKubernetes"
  shows "\<exists>c e k'.
     checkOwnership (Some ex) = (c, Some e) \<and>
     k' = k\<lparr>Conditions := SetStatusCondition (Conditions k) c\<rparr> \<and>
     (\<forall>ev \<in> set (calls (Upsert r w (Resource k))). \<not> is_mutation ev) \<and>
     Status c = ConditionFalse \<and>
     FindStatusCondition (Conditions k') ConditionTypeOwnership = Some c \<and>
     object (Upsert r w (Resource k)) = Resource k' \<and>
     take 3 (calls (Upsert r w (Resource k))) =
       [EvGet (Name (ToTeleport r k)), EvCheckOwnership (Some ex), EvStatusUpdate k'] \<and>
     world (Upsert r w (Resource k)) = fst (StatusUpdate r w1 k') \<and>
     returned (Upsert r w (Resource k)) = Some e"
proof -
  from assms(3) obtain c e where co: "checkOwnership (Some ex) = (c, Some e)"
    and st: "Status c = ConditionFalse" and ty: "Type c = ConditionTypeOwnership"
    using checkOwnership_foreign by blast
  let ?k = "k\<lparr>Conditions := SetStatusCondition (Conditions k) c\<rparr>"
  note up = Upsert_denied [OF assms(1) assms(2) co]
  have "FindStatusCondition (Conditions ?k) ConditionTypeOwnership = Some c"
    using Find_Set_same [of "Conditions k" c] ty by simp
  moreover have "\<forall>ev \<in> set (calls (Upsert r w (Resource k))). \<not> is_mutation ev"
    by (auto simp add: up silent_calls split: option.splits)
  moreover have "take 3 (calls (Upsert r w (Resource k))) =
       [EvGet (Name (ToTeleport r k)), EvCheckOwnership (Some ex), EvStatusUpdate ?k]"
    by (simp add: up silent_calls)
  ultimately show ?thesis using co st by (simp add: up)
qed

theorem Upsert_ownership_gate_witness:
  "GetTeleportResource fake_reconciler foreign_world
     (Name (ToTeleport fake_reconciler conn_a)) = (foreign_world, Some foreign_res, None) \<and>
   Origin foreign_res \<noteq> OriginKubernetes \<and>
   filter is_mutation (calls (Upsert fake_reconciler foreign_world (Resource conn_a))) = [] \<and>
   returned (Upsert fake_reconciler foreign_world (Resource conn_a)) =
     Some (Error OwnershipConflict ''unowned resource already exists: conn-a'')"
proof -
  have h1: "GetTeleportResource fake_reconciler foreign_world
      (Name (ToTeleport fake_reconciler conn_a)) = (foreign_world, Some foreign_res, None)"
    by (simp add: fake_defs)
  have h2: "(None :: error option) = None \<or> IsNotFound None" by simp
  have h3: "Origin foreign_res \<noteq> OriginKubernetes"
    by (simp add: foreign_res_def OriginKubernetes_def)
  have co: "snd (checkOwnership (Some foreign_res)) =
     Some (Error OwnershipConflict ''unowned resource already exists: conn-a'')"
    by (simp add: checkOwnership_def foreign_res_def OriginKubernetes_def)
  from Upsert_ownership_gate [OF h1 h2 h3] co h1 h3 show ?thesis
    by (auto simp add: filter_empty_conv)
qed

text \<open>
  C7, the order within a pass. Wherever a create or update call stands among the calls
  of a pass, the ownership check stands before it and no status write does, and a status
  write, but no further mutating call, stands after it.
\<close>

theorem Upsert_call_order:
  assumes "calls (Upsert r w obj) = pre @ m # post" and "is_mutation m"
  shows "(\<exists>e \<in> set pre. is_ownership_check e) \<and> (\<forall>e \<in> set pre. \<not> is_status_write e) \<and>
         (\<exists>e \<in> set post. is_status_write e) \<and> (\<forall>e \<in> set post. \<not> is_mutation e)"
  using Upsert_calls_cases [of r w obj] assms
  by (auto simp add: Cons_eq_append_conv append_eq_Cons_conv)

theorem Upsert_call_order_witness:
  "calls (Upsert fake_reconciler empty_world (Resource conn_a)) =
     [EvGet ''conn-a'', EvCheckOwnership None] @
     EvCreate \<lparr>Name = ''conn-a'', Origin = ''kubernetes'', Spec = ''https://issuer''\<rparr> #
     [EvStatusUpdate (conn_a\<lparr>Conditions :=
        [fst (checkOwnership (None :: string resource option)), getReconciliationConditionFromError None]\<rparr>)] \<and>
   is_mutation (EvCreate \<lparr>Name = ''conn-a'', Origin = ''kubernetes'', Spec = ''https://issuer''\<rparr>) \<and>
   filter is_ownership_check [EvGet ''conn-a'', EvCheckOwnership (None :: string resource option)] =
     [EvCheckOwnership None] \<and>
   filter is_status_write [EvGet ''conn-a'', EvCheckOwnership (None :: string resource option)] = []"
proof -
  have h1: "calls (Upsert fake_reconciler empty_world (Resource conn_a)) =
     [EvGet ''conn-a'', EvCheckOwnership None] @
     EvCreate \<lparr>Name = ''conn-a'', Origin = ''kubernetes'', Spec = ''https://issuer''\<rparr> #
     [EvStatusUpdate (conn_a\<lparr>Conditions :=
        [fst (checkOwnership (None :: string resource option)), getReconciliationConditionFromError None]\<rparr>)]"
    by (simp add: Upsert.simps fake_defs Let_def)
  have h2: "is_mutation (EvCreate \<lparr>Name = ''conn-a'', Origin = ''kubernetes'', Spec = ''https://issuer''\<rparr>)"
    by simp
  from Upsert_call_order [OF h1 h2] h1 h2 show ?thesis by simp
qed

text \<open>
  C2, the dispatch. In a pass that reaches the mutation step (the get call succeeded or
  reported NotFound, and the ownership check returned no error) the resource handed to
  the backend carries the engine's origin marker, and the pass makes exactly one mutating
  call, right after the get and the check: create when the get reported NotFound, update
  when the get returned without error. The status write that follows acts on the world
  that call left. No pass of any kind makes more than one mutating call.
\<close>

theorem Upsert_dispatch:
  assumes "GetTeleportResource r w (Name (ToTeleport r k)) = (w1, ex, gerr)"
    and "gerr = None \<or> IsNotFound gerr"
    and "snd (checkOwnership ex) = None"
    and "t = SetOrigin (ToTeleport r k) OriginKubernetes"
  shows "Origin t = OriginKubernetes \<and>
     take 3 (calls (Upsert r w (Resource k))) =
       [EvGet (Name (ToTeleport r k)), EvCheckOwnership ex,
        if IsNotFound gerr then EvCreate t else EvUpdate t] \<and>
     filter is_mutation (calls (Upsert r w (Resource k))) =
       [if IsNotFound gerr then EvCreate t else EvUpdate t] \<and>
     (IsNotFound gerr \<longrightarrow> filter is_mutation (calls (Upsert r w (Resource k))) = [EvCreate t]) \<and>
     (gerr = None \<longrightarrow> filter is_mutation (calls (Upsert r w (Resource k))) = [EvUpdate t]) \<and>
     (\<exists>k2. object (Upsert r w (Resource k)) = Resource k2 \<and>
        world (Upsert r w (Resource k)) =
          fst (StatusUpdate r
                 (fst (if IsNotFound gerr then CreateTeleportResource r w1 t
                       else UpdateTeleportResource r w1 t)) k2)) \<and>
     length (filter is_mutation (calls (Upsert r' w' obj'))) \<le> 1"
proof -
  obtain c where co: "checkOwnership ex = (c, None)"
    using assms(3) by (cases "checkOwnership ex") simp
  obtain w2 merr where mut:
    "(if IsNotFound gerr
      then CreateTeleportResource r w1 (SetOrigin (ToTeleport r k) OriginKubernetes)
      else UpdateTeleportResource r w1 (SetOrigin (ToTeleport r k) OriginKubernetes)) =
     (w2, merr)"
    by (cases "(if IsNotFound gerr
      then CreateTeleportResource r w1 (SetOrigin (ToTeleport r k) OriginKubernetes)
      else UpdateTeleportResource r w1 (SetOrigin (ToTeleport r k) OriginKubernetes))")
  note up = Upsert_mutated [OF assms(1) assms(2) co mut refl]
  have o: "Origin t = OriginKubernetes" by (simp add: assms(4) SetOrigin_def)
  have f: "filter is_mutation (calls (Upsert r w (Resource k))) =
       [if IsNotFound gerr then EvCreate t else EvUpdate t]"
    by (simp add: up assms(4) silent_calls split: option.splits)
  have t3: "take 3 (calls (Upsert r w (Resource k))) =
       [EvGet (Name (ToTeleport r k)), EvCheckOwnership ex,
        if IsNotFound gerr then EvCreate t else EvUpdate t]"
    by (simp add: up assms(4))
  have nf: "gerr = None \<Longrightarrow> \<not> IsNotFound gerr" by simp
  have wd: "\<exists>k2. object (Upsert r w (Resource k)) = Resource k2 \<and>
        world (Upsert r w (Resource k)) =
          fst (StatusUpdate r
                 (fst (if IsNotFound gerr then CreateTeleportResource r w1 t
                       else UpdateTeleportResource r w1 t)) k2)"
    using mut by (cases "IsNotFound gerr") (simp_all add: up assms(4))
  have le: "length (filter is_mutation (calls (Upsert r' w' obj'))) \<le> 1"
    using Upsert_calls_cases [of r' w' obj'] by auto
  from o f t3 nf wd le show ?thesis by simp
qed

theorem Upsert_dispatch_witness:
  "GetTeleportResource fake_reconciler empty_world (Name (ToTeleport fake_reconciler conn_a)) =
     (empty_world, None, Some (Error NotFound ''connector not found'')) \<and>
   IsNotFound (Some (Error NotFound ''connector not found'')) \<and>
   snd (checkOwnership (None :: string resource option)) = None \<and>
   filter is_mutation (calls (Upsert fake_reconciler empty_world (Resource conn_a))) =
     [EvCreate \<lparr>Name = ''conn-a'', Origin = ''kubernetes'', Spec = ''https://issuer''\<rparr>] \<and>
   GetTeleportResource fake_reconciler owned_world (Name (ToTeleport fake_reconciler conn_a)) =
     (owned_world, Some owned_res, None) \<and>
   snd (checkOwnership (Some owned_res)) = None \<and>
   filter is_mutation (calls (Upsert fake_reconciler owned_world (Resource conn_a))) =
     [EvUpdate \<lparr>Name = ''conn-a'', Origin = ''kubernetes'', Spec = ''https://issuer''\<rparr>]"
proof -
  have g1: "GetTeleportResource fake_reconciler empty_world
      (Name (ToTeleport fake_reconciler conn_a)) =
     (empty_world, None, Some (Error NotFound ''connector not found''))"
    by (simp add: fake_defs)
  have n1: "Some (Error NotFound ''connector not found'') = None \<or>
            IsNotFound (Some (Error NotFound ''connector not found''))" by simp
  have c1: "snd (checkOwnership (None :: string resource option)) = None"
    by (simp add: checkOwnership_def)
  have t: "\<lparr>Name = ''conn-a'', Origin = ''kubernetes'', Spec = ''https://issuer''\<rparr> =
     SetOrigin (ToTeleport fake_reconciler conn_a) OriginKubernetes"
    by (simp add: fake_defs)
  have g2: "GetTeleportResource fake_reconciler owned_world
      (Name (ToTeleport fake_reconciler conn_a)) = (owned_world, Some owned_res, None)"
    by (simp add: fake_defs)
  have n2: "(None :: error option) = None \<or> IsNotFound None" by simp
  have c2: "snd (checkOwnership (Some owned_res)) = None"
    by (simp add: checkOwnership_def owned_res_def OriginKubernetes_def)
  note d1 = Upsert_dispatch [where r' = fake_reconciler and w' = empty_world
      and obj' = "Resource conn_a", OF g1 n1 c1 t]
  note d2 = Upsert_dispatch [where r' = fake_reconciler and w' = owned_world
      and obj' = "Resource conn_a", OF g2 n2 c2 t]
  from d1 d2 g1 c1 g2 c2 show ?thesis by simp
qed

text \<open>
  C8, the frame of a denied pass. When the ownership check returns an error, the object
  after the pass has the reconciliation condition it had before, and so has every
  condition of a type other than ownership; the one status write of the pass persists
  that object, stale reconciliation entry included.
\<close>

theorem Upsert_denied_keeps_reconciliation_condition:
  assumes "GetTeleportResource r w (Name (ToTeleport r k)) = (w1, ex, gerr)"
    and "gerr = None \<or> IsNotFound gerr"
    and "snd (checkOwnership ex) \<noteq> None"
  shows "\<exists>k'. object (Upsert r w (Resource k)) = Resource k' \<and>
     FindStatusCondition (Conditions k') ConditionTypeReconciliation =
       FindStatusCondition (Conditions k) ConditionTypeReconciliation \<and>
     filter (\<lambda>c. Type c \<noteq> ConditionTypeOwnership) (Conditions k') =
       filter (\<lambda>c. Type c \<noteq> ConditionTypeOwnership) (Conditions k) \<and>
     filter is_status_write (calls (Upsert r w (Resource k))) = [EvStatusUpdate k']"
proof -
  obtain c e where co: "checkOwnership ex = (c, Some e)"
    using assms(3) by (cases "checkOwnership ex") auto
  have ty: "Type c = ConditionTypeOwnership"
    using checkOwnership_Type [of ex] co by simp
  note up = Upsert_denied [OF assms(1) assms(2) co]
  have "FindStatusCondition (SetStatusCondition (Conditions k) c) ConditionTypeReconciliation =
        FindStatusCondition (Conditions k) ConditionTypeReconciliation"
    using Find_Set_other [of c ConditionTypeReconciliation] ty types_differ by simp
  moreover have "filter (\<lambda>x. Type x \<noteq> ConditionTypeOwnership) (SetStatusCondition (Conditions k) c) =
       filter (\<lambda>x. Type x \<noteq> ConditionTypeOwnership) (Conditions k)"
    using filter_Set_other [of c "Conditions k"] ty by simp
  ultimately show ?thesis
    by (simp add: up silent_calls split: option.splits)
qed

theorem Upsert_denied_keeps_reconciliation_condition_witness:
  "GetTeleportResource fake_reconciler foreign_world
     (Name (ToTeleport fake_reconciler conn_a_synced)) = (foreign_world, Some foreign_res, None) \<and>
   snd (checkOwnership (Some foreign_res)) \<noteq> None \<and>
   object (Upsert fake_reconciler foreign_world (Resource conn_a_synced)) =
     Resource (conn_a\<lparr>Conditions :=
       [\<lparr>Type = ''ownership'', Status = ConditionFalse, Reason = ''origin conflict'',
         Message = ''resource is owned by origin: config-file'', ObservedGeneration = 0\<rparr>,
        \<lparr>Type = ''reconciliation'', Status = ConditionTrue, Reason = ''success'',
         Message = [], ObservedGeneration = 0\<rparr>]\<rparr>) \<and>
   FindStatusCondition (Conditions conn_a_synced) ConditionTypeReconciliation =
     Some \<lparr>Type = ''reconciliation'', Status = ConditionTrue, Reason = ''success'',
           Message = [], ObservedGeneration = 0\<rparr>"
proof -
  have h1: "GetTeleportResource fake_reconciler foreign_world
      (Name (ToTeleport fake_reconciler conn_a_synced)) = (foreign_world, Some foreign_res, None)"
    by (simp add: fake_defs)
  have h2: "(None :: error option) = None \<or> IsNotFound None" by simp
  have h3: "snd (checkOwnership (Some foreign_res)) \<noteq> None"
    by (simp add: checkOwnership_def foreign_res_def OriginKubernetes_def)
  have ob: "object (Upsert fake_reconciler foreign_world (Resource conn_a_synced)) =
     Resource (conn_a\<lparr>Conditions :=
       [\<lparr>Type = ''ownership'', Status = ConditionFalse, Reason = ''origin conflict'',
         Message = ''resource is owned by origin: config-file'', ObservedGeneration = 0\<rparr>,
        \<lparr>Type = ''reconciliation'', Status = ConditionTrue, Reason = ''success'',
         Message = [], ObservedGeneration = 0\<rparr>]\<rparr>)"
    by (simp add: Upsert.simps fake_defs Let_def)
  from Upsert_denied_keeps_reconciliation_condition [OF h1 h2 h3] h1 h3 ob show ?thesis
    by (auto simp add: conn_a_def ConditionTypeReconciliation_def)
qed

text \<open>
  C6, as the claim states it, fails. A pass on an object of another kind ends with no
  status write and the object untouched. And a pass that succeeds on an object of
  generation 2 leaves conditions whose observed generation is 0: the conditions are
  computed from the remote resource and from the error alone, never from the object.
\<close>

theorem Upsert_status_counterexample:
  "calls (Upsert fake_reconciler empty_world (OtherObject ''Pod'' ''conn-a'')) = [] \<and>
   object (Upsert fake_reconciler empty_world (OtherObject ''Pod'' ''conn-a'')) =
     OtherObject ''Pod'' ''conn-a'' \<and>
   returned (Upsert fake_reconciler empty_world (OtherObject ''Pod'' ''conn-a'')) \<noteq> None \<and>
   object (Upsert fake_reconciler empty_world (Resource (conn_a\<lparr>Generation := 2\<rparr>))) =
     Resource (conn_a\<lparr>Generation := 2, Conditions :=
       [\<lparr>Type = ''ownership'', Status = ConditionTrue, Reason = ''new resource'',
         Message = [], ObservedGeneration = 0\<rparr>,
        \<lparr>Type = ''reconciliation'', Status = ConditionTrue, Reason = ''success'',
         Message = [], ObservedGeneration = 0\<rparr>]\<rparr>)"
  by (simp add: Upsert.simps fake_defs Let_def)

text \<open>
  C6, amended. Every pass on an object of the expected kind whose get call succeeded or
  reported NotFound ends with the ownership condition of the object equal to the one the
  ownership check computed, with the reconciliation condition equal to the one derived
  from the create or update result whenever the check passed, and with exactly one status
  write, of the object as the pass leaves it.
\<close>

theorem Upsert_status_updated:
  assumes "GetTeleportResource r w (Name (ToTeleport r k)) = (w1, ex, gerr)"
    and "gerr = None \<or> IsNotFound gerr"
    and "t = SetOrigin (ToTeleport r k) OriginKubernetes"
    and "merr = snd (if IsNotFound gerr then CreateTeleportResource r w1 t
                     else UpdateTeleportResource r w1 t)"
  shows "\<exists>k'. object (Upsert r w (Resource k)) = Resource k' \<and>
     FindStatusCondition (Conditions k') ConditionTypeOwnership = Some (fst (checkOwnership ex)) \<and>
     (snd (checkOwnership ex) = None \<longrightarrow>
        FindStatusCondition (Conditions k') ConditionTypeReconciliation =
          Some (getReconciliationConditionFromError merr)) \<and>
     filter is_status_write (calls (Upsert r w (Resource k))) = [EvStatusUpdate k']"
proof -
  obtain c oerr where co: "checkOwnership ex = (c, oerr)" by (cases "checkOwnership ex")
  have ty: "Type c = ConditionTypeOwnership"
    using checkOwnership_Type [of ex] co by simp
  have own: "FindStatusCondition (SetStatusCondition (Conditions k) c) ConditionTypeOwnership = Some c"
    using Find_Set_same [of "Conditions k" c] ty by simp
  show ?thesis
  proof (cases oerr)
    case (Some e)
    with co have co': "checkOwnership ex = (c, Some e)" by simp
    note up = Upsert_denied [OF assms(1) assms(2) co']
    show ?thesis using own co'
      by (simp add: up silent_calls split: option.splits)
  next
    case None
    with co have co': "checkOwnership ex = (c, None)" by simp
    let ?m = "(if IsNotFound gerr
        then CreateTeleportResource r w1 (SetOrigin (ToTeleport r k) OriginKubernetes)
        else UpdateTeleportResource r w1 (SetOrigin (ToTeleport r k) OriginKubernetes))"
    have mut: "?m = (fst ?m, merr)"
      using assms(3,4) by simp
    note up = Upsert_mutated [OF assms(1) assms(2) co' mut refl]
    let ?rc = "getReconciliationConditionFromError merr"
    have rty: "Type ?rc = ConditionTypeReconciliation" by (rule reconciliation_Type)
    have "FindStatusCondition (SetStatusCondition (SetStatusCondition (Conditions k) c) ?rc)
            ConditionTypeOwnership = Some c"
      using Find_Set_other [of ?rc ConditionTypeOwnership "SetStatusCondition (Conditions k) c"]
        rty types_differ own by simp
    moreover have "FindStatusCondition (SetStatusCondition (SetStatusCondition (Conditions k) c) ?rc)
            ConditionTypeReconciliation = Some ?rc"
      using Find_Set_same [of "SetStatusCondition (Conditions k) c" ?rc] rty by simp
    ultimately show ?thesis using co'
      by (simp add: up silent_calls split: option.splits)
  qed
qed

theorem Upsert_status_updated_witness:
  "GetTeleportResource fake_reconciler (empty_world\<lparr>read_only := True\<rparr>)
     (Name (ToTeleport fake_reconciler conn_a)) =
     (empty_world\<lparr>read_only := True\<rparr>, None, Some (Error NotFound ''connector not found'')) \<and>
   snd (CreateTeleportResource fake_reconciler (empty_world\<lparr>read_only := True\<rparr>)
         (SetOrigin (ToTeleport fake_reconciler conn_a) OriginKubernetes)) =
     Some (Error Generic ''backend is read-only'') \<and>
   (\<exists>k'. object (Upsert fake_reconciler (empty_world\<lparr>read_only := True\<rparr>) (Resource conn_a)) =
           Resource k' \<and>
     FindStatusCondition (Conditions k') ConditionTypeOwnership =
       Some \<lparr>Type = ''ownership'', Status = ConditionTrue, Reason = ''new resource'',
             Message = [], ObservedGeneration = 0\<rparr> \<and>
     FindStatusCondition (Conditions k') ConditionTypeReconciliation =
       Some \<lparr>Type = ''reconciliation'', Status = ConditionFalse, Reason = ''failure'',
             Message = ''backend is read-only'', ObservedGeneration = 0\<rparr> \<and>
     filter is_status_write
       (calls (Upsert fake_reconciler (empty_world\<lparr>read_only := True\<rparr>) (Resource conn_a))) =
       [EvStatusUpdate k'])"
proof -
  let ?w = "empty_world\<lparr>read_only := True\<rparr>"
  have h1: "GetTeleportResource fake_reconciler ?w (Name (ToTeleport fake_reconciler conn_a)) =
     (?w, None, Some (Error NotFound ''connector not found''))"
    by (simp add: fake_defs)
  have h2: "Some (Error NotFound ''connector not found'') = None \<or>
            IsNotFound (Some (Error NotFound ''connector not found''))" by simp
  have h4: "Some (Error Generic ''backend is read-only'') =
     snd (if IsNotFound (Some (Error NotFound ''connector not found''))
          then CreateTeleportResource fake_reconciler ?w
                 (SetOrigin (ToTeleport fake_reconciler conn_a) OriginKubernetes)
          else UpdateTeleportResource fake_reconciler ?w
                 (SetOrigin (ToTeleport fake_reconciler conn_a) OriginKubernetes))"
    by (simp add: fake_defs)
  have c: "checkOwnership (None :: string resource option) =
     (\<lparr>Type = ''ownership'', Status = ConditionTrue, Reason = ''new resource'',
       Message = [], ObservedGeneration = 0\<rparr>, None)"
    by (simp add: checkOwnership_def ConditionTypeOwnership_def)
  have m: "snd (CreateTeleportResource fake_reconciler ?w
         (SetOrigin (ToTeleport fake_reconciler conn_a) OriginKubernetes)) =
     Some (Error Generic ''backend is read-only'')"
    by (simp add: fake_defs)
  from Upsert_status_updated [OF h1 h2 refl h4] c h1 m show ?thesis
    by (simp add: ConditionTypeReconciliation_def)
qed

text \<open>
  C4, as the claim states it, fails. The get call reports NotFound and the create call
  succeeds, yet the pass returns an error: the one the final status write failed with.
  With the status write working, the same pass returns nil.
\<close>

theorem Upsert_status_error_counterexample:
  "GetTeleportResource fake_reconciler (empty_world\<lparr>status_down := True\<rparr>) ''conn-a'' =
     (empty_world\<lparr>status_down := True\<rparr>, None, Some (Error NotFound ''connector not found'')) \<and>
   snd (CreateTeleportResource fake_reconciler (empty_world\<lparr>status_down := True\<rparr>)
          \<lparr>Name = ''conn-a'', Origin = ''kubernetes'', Spec = ''https://issuer''\<rparr>) = None \<and>
   filter is_mutation
     (calls (Upsert fake_reconciler (empty_world\<lparr>status_down := True\<rparr>) (Resource conn_a))) =
     [EvCreate \<lparr>Name = ''conn-a'', Origin = ''kubernetes'', Spec = ''https://issuer''\<rparr>] \<and>
   returned (Upsert fake_reconciler (empty_world\<lparr>status_down := True\<rparr>) (Resource conn_a)) =
     Some (Error ConnectionProblem ''status write refused'') \<and>
   returned (Upsert fake_reconciler empty_world (Resource conn_a)) = None"
  by (simp add: Upsert.simps fake_defs Let_def)

text \<open>
  C4, amended. The value Upsert returns is the get error when that is not NotFound;
  else the ownership error if there is one; else the create or update error if there
  is one; and only when all three succeeded the result of the final status write. In a
  pass whose get call succeeded or reported NotFound, the status write is attempted
  once; on the ownership and create/update error paths its failure, if any, is logged
  and not returned.
\<close>

theorem Upsert_returned_error:
  assumes "GetTeleportResource r w (Name (ToTeleport r k)) = (w1, ex, gerr)"
    and "t = SetOrigin (ToTeleport r k) OriginKubernetes"
    and "(if IsNotFound gerr then CreateTeleportResource r w1 t
          else UpdateTeleportResource r w1 t) = (w2, merr)"
    and "k1 = k\<lparr>Conditions := SetStatusCondition (Conditions k) (fst (checkOwnership ex))\<rparr>"
    and "k2 = k1\<lparr>Conditions := SetStatusCondition (Conditions k1)
                     (getReconciliationConditionFromError merr)\<rparr>"
  shows "returned (Upsert r w (Resource k)) =
     (if gerr \<noteq> None \<and> \<not> IsNotFound gerr then gerr
      else if snd (checkOwnership ex) \<noteq> None then snd (checkOwnership ex)
      else if merr \<noteq> None then merr
      else snd (StatusUpdate r w2 k2)) \<and>
     (gerr = None \<or> IsNotFound gerr \<longrightarrow>
      filter is_status_or_log (calls (Upsert r w (Resource k))) =
      (if snd (checkOwnership ex) \<noteq> None
       then EvStatusUpdate k1 #
            (case snd (StatusUpdate r w1 k1) of None \<Rightarrow> [] | Some e \<Rightarrow> [EvLogError e])
       else if merr \<noteq> None
       then EvStatusUpdate k2 #
            (case snd (StatusUpdate r w2 k2) of None \<Rightarrow> [] | Some e \<Rightarrow> [EvLogError e])
       else [EvStatusUpdate k2]))"
proof (cases "gerr \<noteq> None \<and> \<not> IsNotFound gerr")
  case True
  with Upsert_get_failed [OF assms(1)] show ?thesis by simp
next
  case False
  then have ok: "gerr = None \<or> IsNotFound gerr" by blast
  obtain c oerr where co: "checkOwnership ex = (c, oerr)" by (cases "checkOwnership ex")
  show ?thesis
  proof (cases oerr)
    case (Some e)
    with co have co': "checkOwnership ex = (c, Some e)" by simp
    note up = Upsert_denied [OF assms(1) ok co']
    show ?thesis using False co' assms(4)
      by (auto simp add: up silent_calls split: option.splits)
  next
    case None
    with co have co': "checkOwnership ex = (c, None)" by simp
    have k2: "k2 = k\<lparr>Conditions := SetStatusCondition (SetStatusCondition (Conditions k) c)
                    (getReconciliationConditionFromError merr)\<rparr>"
      using assms(4,5) co' by simp
    note up = Upsert_mutated [OF assms(1) ok co' assms(3)[unfolded assms(2)] k2]
    show ?thesis using False co'
      by (auto simp add: up silent_calls split: option.splits)
  qed
qed

theorem Upsert_returned_error_witness:
  "GetTeleportResource fake_reconciler (empty_world\<lparr>read_only := True, status_down := True\<rparr>)
     (Name (ToTeleport fake_reconciler conn_a)) =
     (empty_world\<lparr>read_only := True, status_down := True\<rparr>, None,
      Some (Error NotFound ''connector not found'')) \<and>
   CreateTeleportResource fake_reconciler (empty_world\<lparr>read_only := True, status_down := True\<rparr>)
     (SetOrigin (ToTeleport fake_reconciler conn_a) OriginKubernetes) =
     (empty_world\<lparr>read_only := True, status_down := True\<rparr>,
      Some (Error Generic ''backend is read-only'')) \<and>
   returned (Upsert fake_reconciler (empty_world\<lparr>read_only := True, status_down := True\<rparr>)
              (Resource conn_a)) = Some (Error Generic ''backend is read-only'') \<and>
   filter is_status_or_log
     (calls (Upsert fake_reconciler (empty_world\<lparr>read_only := True, status_down := True\<rparr>)
              (Resource conn_a))) =
     [EvStatusUpdate (conn_a\<lparr>Conditions :=
        [\<lparr>Type = ''ownership'', Status = ConditionTrue, Reason = ''new resource'',
          Message = [], ObservedGeneration = 0\<rparr>,
         \<lparr>Type = ''reconciliation'', Status = ConditionFalse, Reason = ''failure'',
          Message = ''backend is read-only'', ObservedGeneration = 0\<rparr>]\<rparr>),
      EvLogError (Error ConnectionProblem ''status write refused'')]"
proof -
  let ?w = "empty_world\<lparr>read_only := True, status_down := True\<rparr>"
  have h1: "GetTeleportResource fake_reconciler ?w (Name (ToTeleport fake_reconciler conn_a)) =
     (?w, None, Some (Error NotFound ''connector not found''))"
    by (simp add: fake_defs)
  have h3: "(if IsNotFound (Some (Error NotFound ''connector not found''))
          then CreateTeleportResource fake_reconciler ?w
                 (SetOrigin (ToTeleport fake_reconciler conn_a) OriginKubernetes)
          else UpdateTeleportResource fake_reconciler ?w
                 (SetOrigin (ToTeleport fake_reconciler conn_a) OriginKubernetes)) =
     (?w, Some (Error Generic ''backend is read-only''))"
    by (simp add: fake_defs)
  have m: "CreateTeleportResource fake_reconciler ?w
         (SetOrigin (ToTeleport fake_reconciler conn_a) OriginKubernetes) =
     (?w, Some (Error Generic ''backend is read-only''))"
    by (simp add: fake_defs)
  have c: "checkOwnership (None :: string resource option) =
     (\<lparr>Type = ''ownership'', Status = ConditionTrue, Reason = ''new resource'',
       Message = [], ObservedGeneration = 0\<rparr>, None)"
    by (simp add: checkOwnership_def ConditionTypeOwnership_def)
  have s: "snd (StatusUpdate fake_reconciler ?w k') =
     Some (Error ConnectionProblem ''status write refused'')" for k'
    by (simp add: fake_defs)
  have cc: "Conditions conn_a = []" by (simp add: conn_a_def)
  from Upsert_returned_error [OF h1 refl h3 refl refl] h1 m c show ?thesis
    by (simp add: s cc ConditionTypeReconciliation_def)
qed

text \<open>
  C9, the adapters. The OIDC, SAML and GitHub reconcilers each bind the create function
  and the update function of the generic engine to the adapter's one upsert function, so
  the engine's create-or-update branch makes the same call on either side.
\<close>

theorem adapters_bind_create_and_update_to_upsert:
  "CreateTeleportResource (NewOIDCConnectorReconciler c1 tt1 acc1) = OIDC_UpsertOIDCConnector acc1 \<and>
   UpdateTeleportResource (NewOIDCConnectorReconciler c1 tt1 acc1) = OIDC_UpsertOIDCConnector acc1 \<and>
   CreateTeleportResource (NewSAMLConnectorReconciler c2 tt2 acc2) = SAML_UpsertSAMLConnector acc2 \<and>
   UpdateTeleportResource (NewSAMLConnectorReconciler c2 tt2 acc2) = SAML_UpsertSAMLConnector acc2 \<and>
   CreateTeleportResource (NewGithubConnectorReconciler c3 tt3 acc3) = Github_UpsertGithubConnector acc3 \<and>
   UpdateTeleportResource (NewGithubConnectorReconciler c3 tt3 acc3) = Github_UpsertGithubConnector acc3 \<and>
   (if \<not> exists1 then CreateTeleportResource (NewOIDCConnectorReconciler c1 tt1 acc1) w1 t1
    else UpdateTeleportResource (NewOIDCConnectorReconciler c1 tt1 acc1) w1 t1) =
     OIDC_UpsertOIDCConnector acc1 w1 t1 \<and>
   (if \<not> exists2 then CreateTeleportResource (NewSAMLConnectorReconciler c2 tt2 acc2) w2 t2
    else UpdateTeleportResource (NewSAMLConnectorReconciler c2 tt2 acc2) w2 t2) =
     SAML_UpsertSAMLConnector acc2 w2 t2 \<and>
   (if \<not> exists3 then CreateTeleportResource (NewGithubConnectorReconciler c3 tt3 acc3) w3 t3
    else UpdateTeleportResource (NewGithubConnectorReconciler c3 tt3 acc3) w3 t3) =
     Github_UpsertGithubConnector acc3 w3 t3"
  by (simp add: NewOIDCConnectorReconciler_def NewSAMLConnectorReconciler_def
      NewGithubConnectorReconciler_def NewTeleportResourceReconciler_def)

end
